theory Spec2Isabelle
  imports Main
begin

section \<open>The relay list and its location lookup\<close>

text \<open>
  A shallow embedding of the Kotlin class \<open>net.mullvad.mullvadvpn.relaylist.RelayList\<close>:
  its constructor, which builds the country / city / relay tree from the model supplied
  by the caller, and \<open>findItemForLocation\<close>, which resolves a location constraint to a node
  of that tree. Kotlin strings are compared with \<open>==\<close> (structural, case-sensitive), which
  is HOL equality on \<open>string\<close>; a nullable result \<open>T?\<close> is \<open>'a option\<close> with \<open>null\<close>
  as \<open>None\<close>.
\<close>

subsection \<open>The input model\<close>

text \<open>
  Modelled from the spec: the classes of package \<open>net.mullvad.mullvadvpn.model\<close> are
  declared outside the sources at hand. The input is a hierarchy of countries, each with
  cities, each with relays; the fields are exactly those the constructor reads
  (\<open>model.countries\<close>, \<open>country.name\<close>, \<open>country.code\<close>, \<open>country.cities\<close>,
  \<open>city.name\<close>, \<open>city.code\<close>, \<open>city.relays\<close>, \<open>relay.hostname\<close>).
\<close>

record ModelRelay =
  hostname :: string

record ModelCity =
  name :: string
  code :: string
  relays :: "ModelRelay list"

record ModelCountry =
  name :: string
  code :: string
  cities :: "ModelCity list"

record ModelRelayList =
  countries :: "ModelCountry list"

subsection \<open>The nodes of the relay list\<close>

text \<open>
  Modelled from the spec: the classes \<open>Relay\<close>, \<open>RelayCity\<close> and \<open>RelayCountry\<close> and the
  interface \<open>RelayItem\<close> are declared outside the sources at hand. The constructor calls
  \<open>Relay(country.code, city.code, relay.hostname)\<close>,
  \<open>RelayCity(city.name, country.code, city.code, false, relays)\<close> and
  \<open>RelayCountry(country.name, country.code, false, cities)\<close>, and the lookup reads
  \<open>relay.name\<close>, \<open>city.code\<close>, \<open>city.relays\<close>, \<open>country.code\<close> and \<open>country.cities\<close>.
  The fields below are the constructor parameters in their order: a relay carries its
  country code, its city code and its host name; a city its display name, its country
  code, its own code, the expansion flag and its relays; a country its display name, its
  code, the expansion flag and its cities.
\<close>

record Relay =
  countryCode :: string
  cityCode :: string
  name :: string

record RelayCity =
  name :: string
  countryCode :: string
  code :: string
  expanded :: bool
  relays :: "Relay list"

record RelayCountry =
  name :: string
  code :: string
  expanded :: bool
  cities :: "RelayCity list"

record RelayList =
  countries :: "RelayCountry list"

text \<open>\<open>RelayItem\<close> is what the lookup returns: a country, a city or a relay.\<close>

datatype RelayItem =
  ItemCountry RelayCountry
| ItemCity RelayCity
| ItemRelay Relay

text \<open>
  Modelled from the spec: \<open>Constraint\<close> and \<open>LocationConstraint\<close> of package \<open>model\<close>, the
  tagged variants the lookup branches on. The lookup reads \<open>location.countryCode\<close>,
  \<open>location.cityCode\<close> and \<open>location.hostname\<close>.
\<close>

datatype LocationConstraint =
  Country string
| City string string
| Hostname string string string

datatype 'a Constraint = Any | Only 'a

subsection \<open>Construction\<close>

definition RelayList_constructor :: "ModelRelayList \<Rightarrow> RelayList" where
  "RelayList_constructor model =
     \<lparr> RelayList.countries =
         map (\<lambda>country.
                let cities =
                      map (\<lambda>city.
                             let relays =
                                   map (\<lambda>relay.
                                          \<lparr> Relay.countryCode = ModelCountry.code country,
                                            Relay.cityCode = ModelCity.code city,
                                            Relay.name = ModelRelay.hostname relay \<rparr>)
                                       (ModelCity.relays city)
                             in \<lparr> RelayCity.name = ModelCity.name city,
                                  RelayCity.countryCode = ModelCountry.code country,
                                  RelayCity.code = ModelCity.code city,
                                  RelayCity.expanded = False,
                                  RelayCity.relays = relays \<rparr>)
                          (ModelCountry.cities country)
                in \<lparr> RelayCountry.name = ModelCountry.name country,
                     RelayCountry.code = ModelCountry.code country,
                     RelayCountry.expanded = False,
                     RelayCountry.cities = cities \<rparr>)
             (ModelRelayList.countries model) \<rparr>"

subsection \<open>Lookup\<close>

text \<open>
  Kotlin's \<open>find\<close> on a list returns the first element satisfying the predicate, or
  \<open>null\<close>: this is \<^const>\<open>List.find\<close>. The safe call \<open>x?.f\<close> is \<open>null\<close> when \<open>x\<close> is and
  \<open>x.f\<close> otherwise: \<^const>\<open>map_option\<close> for a field, \<^const>\<open>Option.bind\<close> for a call that is
  itself nullable. The variables \<open>locCountryCode\<close>, \<open>locCityCode\<close> and \<open>locHostname\<close>
  stand for \<open>location.countryCode\<close>, \<open>location.cityCode\<close> and \<open>location.hostname\<close>.
\<close>

fun findItemForLocation :: "RelayList \<Rightarrow> LocationConstraint Constraint \<Rightarrow> RelayItem option" where
  "findItemForLocation this Any = None"
| "findItemForLocation this (Only (Country locCountryCode)) =
     map_option ItemCountry
       (List.find (\<lambda>country. RelayCountry.code country = locCountryCode) (RelayList.countries this))"
| "findItemForLocation this (Only (City locCountryCode locCityCode)) =
     (let country = List.find (\<lambda>country. RelayCountry.code country = locCountryCode)
                      (RelayList.countries this)
      in map_option ItemCity
           (Option.bind (map_option RelayCountry.cities country)
              (List.find (\<lambda>city. RelayCity.code city = locCityCode))))"
| "findItemForLocation this (Only (Hostname locCountryCode locCityCode locHostname)) =
     (let country = List.find (\<lambda>country. RelayCountry.code country = locCountryCode)
                      (RelayList.countries this);
          city = Option.bind (map_option RelayCountry.cities country)
                   (List.find (\<lambda>city. RelayCity.code city = locCityCode))
      in map_option ItemRelay
           (Option.bind (map_option RelayCity.relays city)
              (List.find (\<lambda>relay. Relay.name relay = locHostname))))"

subsection \<open>Vocabulary of the properties\<close>

text \<open>
  A left-to-right scan for the first element satisfying \<open>P\<close> stops at position \<open>i\<close>:
  the element there satisfies \<open>P\<close> and no element before it does.
\<close>

definition first_match :: "('a \<Rightarrow> bool) \<Rightarrow> 'a list \<Rightarrow> nat \<Rightarrow> bool" where
  "first_match P xs i \<longleftrightarrow> i < length xs \<and> P (xs ! i) \<and> list_all (\<lambda>x. \<not> P x) (take i xs)"

text \<open>
  Two input models to evaluate the definitions on: one with distinct codes, and one in
  which the country code \<open>se\<close> occurs twice, the first time with no city.
\<close>

definition example_model :: ModelRelayList where
  "example_model =
     \<lparr> ModelRelayList.countries =
         [ \<lparr> ModelCountry.name = ''Sweden'', ModelCountry.code = ''se'',
             ModelCountry.cities =
               [ \<lparr> ModelCity.name = ''Gothenburg'', ModelCity.code = ''got'',
                   ModelCity.relays = [ \<lparr> ModelRelay.hostname = ''se3-wg-001'' \<rparr> ] \<rparr>,
                 \<lparr> ModelCity.name = ''Stockholm'', ModelCity.code = ''sto'',
                   ModelCity.relays = [ \<lparr> ModelRelay.hostname = ''se1-wg-001'' \<rparr>,
                                        \<lparr> ModelRelay.hostname = ''se2-wg-001'' \<rparr> ] \<rparr> ] \<rparr>,
           \<lparr> ModelCountry.name = ''Norway'', ModelCountry.code = ''no'',
             ModelCountry.cities =
               [ \<lparr> ModelCity.name = ''Oslo'', ModelCity.code = ''osl'',
                   ModelCity.relays = [ \<lparr> ModelRelay.hostname = ''no1-wg-001'' \<rparr> ] \<rparr> ] \<rparr> ] \<rparr>"

definition duplicate_model :: ModelRelayList where
  "duplicate_model =
     \<lparr> ModelRelayList.countries =
         [ \<lparr> ModelCountry.name = ''Sweden'', ModelCountry.code = ''se'',
             ModelCountry.cities = [] \<rparr>,
           \<lparr> ModelCountry.name = ''Sverige'', ModelCountry.code = ''se'',
             ModelCountry.cities =
               [ \<lparr> ModelCity.name = ''Stockholm'', ModelCity.code = ''sto'',
                   ModelCity.relays = [ \<lparr> ModelRelay.hostname = ''se1-wg-001'' \<rparr> ] \<rparr> ] \<rparr> ] \<rparr>"

definition duplicate_relay :: Relay where
  "duplicate_relay =
     \<lparr> Relay.countryCode = ''se'', Relay.cityCode = ''sto'', Relay.name = ''se1-wg-001'' \<rparr>"

section \<open>Scanning a list\<close>

lemma find_None_list_all: "List.find P xs = None \<longleftrightarrow> list_all (\<lambda>x. \<not> P x) xs"
  by (induction xs) auto

lemma first_match_Nil: "\<not> first_match P [] i"
  by (simp add: first_match_def)

lemma first_match_Cons:
  "first_match P (x # xs) i \<longleftrightarrow> (if P x then i = 0 else \<exists>k. i = Suc k \<and> first_match P xs k)"
  by (cases i) (auto simp: first_match_def)

lemma find_Some_first_match:
  "List.find P xs = Some x \<longleftrightarrow> (\<exists>i. first_match P xs i \<and> x = xs ! i)"
proof (induction xs)
  case Nil
  show ?case by (simp add: first_match_Nil)
next
  case (Cons y ys)
  show ?case
  proof (cases "P y")
    case True
    then show ?thesis by (auto simp: first_match_Cons)
  next
    case False
    then show ?thesis using Cons.IH by (auto simp: first_match_Cons)
  qed
qed

lemma scan_cases: "(\<exists>i. first_match P xs i) \<or> list_all (\<lambda>x. \<not> P x) xs"
proof (cases "List.find P xs")
  case None
  then show ?thesis by (simp add: find_None_list_all)
next
  case (Some x)
  then show ?thesis using find_Some_first_match [of P xs x] by blast
qed

lemma first_match_find: "first_match P xs i \<Longrightarrow> List.find P xs = Some (xs ! i)"
  using find_Some_first_match [of P xs "xs ! i"] by blast

lemma first_match_in_set: "first_match P xs i \<Longrightarrow> xs ! i \<in> set xs"
  by (simp add: first_match_def)

lemma find_Some_holds: "List.find P xs = Some x \<Longrightarrow> P x \<and> x \<in> set xs"
  by (induction xs) (auto split: if_splits)

lemma find_same_key:
  assumes "x \<in> set xs" and "\<And>y. y \<in> set xs \<Longrightarrow> key y = key x \<Longrightarrow> y = x"
  shows "List.find (\<lambda>y. key y = key x) xs = Some x"
proof (cases "List.find (\<lambda>y. key y = key x) xs")
  case None
  with assms(1) show ?thesis by (auto simp: find_None_iff)
next
  case (Some y)
  then have "key y = key x \<and> y \<in> set xs" by (rule find_Some_holds)
  with assms(2) have "y = x" by blast
  with Some show ?thesis by simp
qed

lemma map_option_find_Some:
  "map_option C (List.find P xs) = Some item \<longleftrightarrow>
     (\<exists>i. first_match P xs i \<and> item = C (xs ! i))"
proof -
  have "map_option C (List.find P xs) = Some item \<longleftrightarrow>
        (\<exists>x. List.find P xs = Some x \<and> item = C x)"
    by auto
  also have "\<dots> \<longleftrightarrow> (\<exists>i. first_match P xs i \<and> item = C (xs ! i))"
    unfolding find_Some_first_match by blast
  finally show ?thesis .
qed

lemma map_option_find_None:
  "map_option C (List.find P xs) = None \<longleftrightarrow> list_all (\<lambda>x. \<not> P x) xs"
  by (simp add: find_None_list_all)

section \<open>The lookup, level by level\<close>

lemma City_no_country:
  "List.find (\<lambda>c. RelayCountry.code c = cc) (RelayList.countries this) = None \<Longrightarrow>
   findItemForLocation this (Only (City cc ci)) = None"
  by simp

lemma City_in_country:
  "List.find (\<lambda>c. RelayCountry.code c = cc) (RelayList.countries this) = Some c \<Longrightarrow>
   findItemForLocation this (Only (City cc ci)) =
     map_option ItemCity (List.find (\<lambda>x. RelayCity.code x = ci) (RelayCountry.cities c))"
  by simp

lemma Hostname_no_country:
  "List.find (\<lambda>c. RelayCountry.code c = cc) (RelayList.countries this) = None \<Longrightarrow>
   findItemForLocation this (Only (Hostname cc ci h)) = None"
  by simp

lemma Hostname_no_city:
  "List.find (\<lambda>c. RelayCountry.code c = cc) (RelayList.countries this) = Some c \<Longrightarrow>
   List.find (\<lambda>x. RelayCity.code x = ci) (RelayCountry.cities c) = None \<Longrightarrow>
   findItemForLocation this (Only (Hostname cc ci h)) = None"
  by simp

lemma Hostname_in_city:
  "List.find (\<lambda>c. RelayCountry.code c = cc) (RelayList.countries this) = Some c \<Longrightarrow>
   List.find (\<lambda>x. RelayCity.code x = ci) (RelayCountry.cities c) = Some x \<Longrightarrow>
   findItemForLocation this (Only (Hostname cc ci h)) =
     map_option ItemRelay (List.find (\<lambda>r. Relay.name r = h) (RelayCity.relays x))"
  by simp

section \<open>The constructed list\<close>

lemma constructor_countries_length:
  "length (RelayList.countries (RelayList_constructor m)) = length (ModelRelayList.countries m)"
  by (simp add: RelayList_constructor_def)

lemma constructor_country_nth:
  assumes "i < length (ModelRelayList.countries m)"
  shows "RelayList.countries (RelayList_constructor m) ! i =
     \<lparr> RelayCountry.name = ModelCountry.name (ModelRelayList.countries m ! i),
       RelayCountry.code = ModelCountry.code (ModelRelayList.countries m ! i),
       RelayCountry.expanded = False,
       RelayCountry.cities =
         map (\<lambda>city.
                \<lparr> RelayCity.name = ModelCity.name city,
                  RelayCity.countryCode = ModelCountry.code (ModelRelayList.countries m ! i),
                  RelayCity.code = ModelCity.code city,
                  RelayCity.expanded = False,
                  RelayCity.relays =
                    map (\<lambda>relay.
                           \<lparr> Relay.countryCode = ModelCountry.code (ModelRelayList.countries m ! i),
                             Relay.cityCode = ModelCity.code city,
                             Relay.name = ModelRelay.hostname relay \<rparr>)
                        (ModelCity.relays city) \<rparr>)
             (ModelCountry.cities (ModelRelayList.countries m ! i)) \<rparr>"
  using assms by (simp add: RelayList_constructor_def Let_def)

lemma constructor_codes:
  assumes "country \<in> set (RelayList.countries (RelayList_constructor m))"
    and "city \<in> set (RelayCountry.cities country)"
  shows "RelayCity.countryCode city = RelayCountry.code country"
    and "relay \<in> set (RelayCity.relays city) \<Longrightarrow>
         Relay.countryCode relay = RelayCountry.code country \<and>
         Relay.cityCode relay = RelayCity.code city"
  using assms by (auto simp: RelayList_constructor_def Let_def)

lemma constructor_expanded:
  assumes "country \<in> set (RelayList.countries (RelayList_constructor m))"
  shows "\<not> RelayCountry.expanded country"
    and "city \<in> set (RelayCountry.cities country) \<Longrightarrow> \<not> RelayCity.expanded city"
  using assms by (auto simp: RelayList_constructor_def Let_def)

lemmas example_defs =
  RelayList_constructor_def example_model_def duplicate_model_def duplicate_relay_def first_match_def

section \<open>Properties of the lookup\<close>

text \<open>
  C3. For every relay list, looking up the unconstrained location \<open>Any\<close> yields no item,
  whatever the list holds.
\<close>

theorem findItemForLocation_Any: "findItemForLocation this Any = None"
  by simp

text \<open>
  C4. Looking up \<open>Only (Country cc)\<close> scans the top-level countries from left to right
  and returns the first country whose code equals \<open>cc\<close>: the result is an item exactly
  when the scan stops at some position \<open>i\<close>, and then it is the country at \<open>i\<close>; it is
  absent exactly when no country has that code. With a code that occurs twice, the earlier
  country is returned.
\<close>

theorem findItemForLocation_Country: "(findItemForLocation this (Only (Country cc)) = Some item \<longleftrightarrow>
      (\<exists>i. first_match (\<lambda>c. RelayCountry.code c = cc) (RelayList.countries this) i \<and>
           item = ItemCountry (RelayList.countries this ! i))) \<and>
   (findItemForLocation this (Only (Country cc)) = None \<longleftrightarrow>
      list_all (\<lambda>c. RelayCountry.code c \<noteq> cc) (RelayList.countries this))"
proof -
  let ?P = "\<lambda>c. RelayCountry.code c = cc"
  let ?cs = "RelayList.countries this"
  have "findItemForLocation this (Only (Country cc)) = Some item \<longleftrightarrow>
        (\<exists>c. List.find ?P ?cs = Some c \<and> item = ItemCountry c)"
    by auto
  also have "\<dots> \<longleftrightarrow> (\<exists>i. first_match ?P ?cs i \<and> item = ItemCountry (?cs ! i))"
    unfolding find_Some_first_match by blast
  finally have some: "findItemForLocation this (Only (Country cc)) = Some item \<longleftrightarrow>
        (\<exists>i. first_match ?P ?cs i \<and> item = ItemCountry (?cs ! i))" .
  have none: "findItemForLocation this (Only (Country cc)) = None \<longleftrightarrow> list_all (\<lambda>c. \<not> ?P c) ?cs"
    by (simp add: find_None_list_all)
  from some none show ?thesis by simp
qed

text \<open>
  In the list built from \<open>duplicate_model\<close> the code \<open>se\<close> occurs twice; the lookup
  returns the country at position 0, named Sweden. No country has code \<open>zz\<close>, and
  none has code \<open>SE\<close>: the comparison is case-sensitive.
\<close>

theorem findItemForLocation_Country_witness:
  "first_match (\<lambda>c. RelayCountry.code c = ''se'')
     (RelayList.countries (RelayList_constructor duplicate_model)) 0 \<and>
   findItemForLocation (RelayList_constructor duplicate_model) (Only (Country ''se'')) =
     Some (ItemCountry (RelayList.countries (RelayList_constructor duplicate_model) ! 0)) \<and>
   RelayCountry.name (RelayList.countries (RelayList_constructor duplicate_model) ! 0) = ''Sweden'' \<and>
   list_all (\<lambda>c. RelayCountry.code c \<noteq> ''zz'')
     (RelayList.countries (RelayList_constructor duplicate_model)) \<and>
   findItemForLocation (RelayList_constructor duplicate_model) (Only (Country ''zz'')) = None \<and>
   findItemForLocation (RelayList_constructor duplicate_model) (Only (Country ''SE'')) = None"
proof -
  let ?rl = "RelayList_constructor duplicate_model"
  have fm: "first_match (\<lambda>c. RelayCountry.code c = ''se'') (RelayList.countries ?rl) 0"
    by (simp add: example_defs)
  have no: "list_all (\<lambda>c. RelayCountry.code c \<noteq> ''zz'') (RelayList.countries ?rl)"
    by (simp add: example_defs)
  from fm have "findItemForLocation ?rl (Only (Country ''se'')) =
      Some (ItemCountry (RelayList.countries ?rl ! 0))"
    using findItemForLocation_Country [of ?rl "''se''" "ItemCountry (RelayList.countries ?rl ! 0)"] by blast
  moreover from no have "findItemForLocation ?rl (Only (Country ''zz'')) = None"
    using findItemForLocation_Country [of ?rl "''zz''"] by blast
  moreover have "list_all (\<lambda>c. RelayCountry.code c \<noteq> ''SE'') (RelayList.countries ?rl)"
    by (simp add: example_defs)
  then have "findItemForLocation ?rl (Only (Country ''SE'')) = None"
    using findItemForLocation_Country [of ?rl "''SE''"] by blast
  moreover have "RelayCountry.name (RelayList.countries ?rl ! 0) = ''Sweden''"
    by (simp add: example_defs)
  ultimately show ?thesis using fm no by blast
qed

text \<open>
  C5. Looking up \<open>Only (City cc ci)\<close> first finds the country by \<open>cc\<close>. When no country
  has that code the result is absent. Otherwise, with \<open>i\<close> the position of the first such
  country, the result is the first city of that country whose code equals \<open>ci\<close>, and it is
  absent exactly when that country has no city with that code.
\<close>

theorem findItemForLocation_City:
  "(list_all (\<lambda>c. RelayCountry.code c \<noteq> cc) (RelayList.countries this) \<longrightarrow>
      findItemForLocation this (Only (City cc ci)) = None) \<and>
   (first_match (\<lambda>c. RelayCountry.code c = cc) (RelayList.countries this) i \<longrightarrow>
      (findItemForLocation this (Only (City cc ci)) = Some item \<longleftrightarrow>
         (\<exists>j. first_match (\<lambda>x. RelayCity.code x = ci)
                (RelayCountry.cities (RelayList.countries this ! i)) j \<and>
              item = ItemCity (RelayCountry.cities (RelayList.countries this ! i) ! j))) \<and>
      (findItemForLocation this (Only (City cc ci)) = None \<longleftrightarrow>
         list_all (\<lambda>x. RelayCity.code x \<noteq> ci)
           (RelayCountry.cities (RelayList.countries this ! i))))"
proof (intro conjI impI)
  assume "list_all (\<lambda>c. RelayCountry.code c \<noteq> cc) (RelayList.countries this)"
  then have "List.find (\<lambda>c. RelayCountry.code c = cc) (RelayList.countries this) = None"
    by (simp add: find_None_list_all)
  then show "findItemForLocation this (Only (City cc ci)) = None"
    by (rule City_no_country)
next
  assume "first_match (\<lambda>c. RelayCountry.code c = cc) (RelayList.countries this) i"
  then have "List.find (\<lambda>c. RelayCountry.code c = cc) (RelayList.countries this) =
             Some (RelayList.countries this ! i)"
    by (rule first_match_find)
  then have eq: "findItemForLocation this (Only (City cc ci)) =
      map_option ItemCity (List.find (\<lambda>x. RelayCity.code x = ci)
        (RelayCountry.cities (RelayList.countries this ! i)))"
    by (rule City_in_country)
  show "findItemForLocation this (Only (City cc ci)) = Some item \<longleftrightarrow>
         (\<exists>j. first_match (\<lambda>x. RelayCity.code x = ci)
                (RelayCountry.cities (RelayList.countries this ! i)) j \<and>
              item = ItemCity (RelayCountry.cities (RelayList.countries this ! i) ! j))"
    unfolding eq by (rule map_option_find_Some)
  show "findItemForLocation this (Only (City cc ci)) = None \<longleftrightarrow>
         list_all (\<lambda>x. RelayCity.code x \<noteq> ci)
           (RelayCountry.cities (RelayList.countries this ! i))"
    unfolding eq by (rule map_option_find_None)
qed

text \<open>
  In the list built from \<open>example_model\<close>: city \<open>sto\<close> of country \<open>se\<close> is found,
  city \<open>xx\<close> of the existing country \<open>se\<close> is absent, and so is any city of the missing
  country \<open>zz\<close>.
\<close>

theorem findItemForLocation_City_witness:
  "first_match (\<lambda>c. RelayCountry.code c = ''se'')
     (RelayList.countries (RelayList_constructor example_model)) 0 \<and>
   findItemForLocation (RelayList_constructor example_model) (Only (City ''se'' ''sto'')) =
     Some (ItemCity
       (RelayCountry.cities (RelayList.countries (RelayList_constructor example_model) ! 0) ! 1)) \<and>
   RelayCity.name
     (RelayCountry.cities (RelayList.countries (RelayList_constructor example_model) ! 0) ! 1) =
     ''Stockholm'' \<and>
   findItemForLocation (RelayList_constructor example_model) (Only (City ''se'' ''xx'')) = None \<and>
   findItemForLocation (RelayList_constructor example_model) (Only (City ''zz'' ''sto'')) = None"
proof -
  let ?rl = "RelayList_constructor example_model"
  let ?cities = "RelayCountry.cities (RelayList.countries ?rl ! 0)"
  have fm: "first_match (\<lambda>c. RelayCountry.code c = ''se'') (RelayList.countries ?rl) 0"
    by (simp add: example_defs)
  have fx: "first_match (\<lambda>x. RelayCity.code x = ''sto'') ?cities 1"
    by (simp add: example_defs)
  have nx: "list_all (\<lambda>x. RelayCity.code x \<noteq> ''xx'') ?cities"
    by (simp add: example_defs)
  have nc: "list_all (\<lambda>c. RelayCountry.code c \<noteq> ''zz'') (RelayList.countries ?rl)"
    by (simp add: example_defs)
  from fm fx have "findItemForLocation ?rl (Only (City ''se'' ''sto'')) = Some (ItemCity (?cities ! 1))"
    using findItemForLocation_City [of "''se''" ?rl "''sto''" 0 "ItemCity (?cities ! 1)"] by blast
  moreover from fm nx have "findItemForLocation ?rl (Only (City ''se'' ''xx'')) = None"
    using findItemForLocation_City [of "''se''" ?rl "''xx''" 0] by blast
  moreover from nc have "findItemForLocation ?rl (Only (City ''zz'' ''sto'')) = None"
    using findItemForLocation_City [of "''zz''" ?rl "''sto''"] by blast
  moreover have "RelayCity.name (?cities ! 1) = ''Stockholm''"
    by (simp add: example_defs)
  ultimately show ?thesis using fm by blast
qed

text \<open>
  C2. Looking up \<open>Only (Hostname cc ci h)\<close> finds the country by \<open>cc\<close>, then the city
  within it by \<open>ci\<close>, then scans that city's relays for the first one whose name equals
  \<open>h\<close> and returns it. The result is absent when no country has code \<open>cc\<close>, when the
  first such country has no city with code \<open>ci\<close>, and when the first such city has no relay
  named \<open>h\<close>; the function is total, so no error is raised.
\<close>

theorem findItemForLocation_Hostname:
  "(list_all (\<lambda>c. RelayCountry.code c \<noteq> cc) (RelayList.countries this) \<longrightarrow>
      findItemForLocation this (Only (Hostname cc ci h)) = None) \<and>
   (first_match (\<lambda>c. RelayCountry.code c = cc) (RelayList.countries this) i \<longrightarrow>
      (list_all (\<lambda>x. RelayCity.code x \<noteq> ci)
         (RelayCountry.cities (RelayList.countries this ! i)) \<longrightarrow>
       findItemForLocation this (Only (Hostname cc ci h)) = None) \<and>
      (first_match (\<lambda>x. RelayCity.code x = ci)
         (RelayCountry.cities (RelayList.countries this ! i)) j \<longrightarrow>
       (findItemForLocation this (Only (Hostname cc ci h)) = Some item \<longleftrightarrow>
          (\<exists>k. first_match (\<lambda>r. Relay.name r = h)
                 (RelayCity.relays (RelayCountry.cities (RelayList.countries this ! i) ! j)) k \<and>
               item = ItemRelay
                 (RelayCity.relays (RelayCountry.cities (RelayList.countries this ! i) ! j) ! k))) \<and>
       (findItemForLocation this (Only (Hostname cc ci h)) = None \<longleftrightarrow>
          list_all (\<lambda>r. Relay.name r \<noteq> h)
            (RelayCity.relays (RelayCountry.cities (RelayList.countries this ! i) ! j)))))"
proof (intro conjI impI)
  assume "list_all (\<lambda>c. RelayCountry.code c \<noteq> cc) (RelayList.countries this)"
  then have "List.find (\<lambda>c. RelayCountry.code c = cc) (RelayList.countries this) = None"
    by (simp add: find_None_list_all)
  then show "findItemForLocation this (Only (Hostname cc ci h)) = None"
    by (rule Hostname_no_country)
next
  assume "first_match (\<lambda>c. RelayCountry.code c = cc) (RelayList.countries this) i"
  then have country: "List.find (\<lambda>c. RelayCountry.code c = cc) (RelayList.countries this) =
             Some (RelayList.countries this ! i)"
    by (rule first_match_find)
  {
    assume "list_all (\<lambda>x. RelayCity.code x \<noteq> ci)
         (RelayCountry.cities (RelayList.countries this ! i))"
    then have "List.find (\<lambda>x. RelayCity.code x = ci)
         (RelayCountry.cities (RelayList.countries this ! i)) = None"
      by (simp add: find_None_list_all)
    with country show "findItemForLocation this (Only (Hostname cc ci h)) = None"
      by (rule Hostname_no_city)
  }
  assume "first_match (\<lambda>x. RelayCity.code x = ci)
         (RelayCountry.cities (RelayList.countries this ! i)) j"
  then have "List.find (\<lambda>x. RelayCity.code x = ci)
         (RelayCountry.cities (RelayList.countries this ! i)) =
         Some (RelayCountry.cities (RelayList.countries this ! i) ! j)"
    by (rule first_match_find)
  with country have eq: "findItemForLocation this (Only (Hostname cc ci h)) =
     map_option ItemRelay (List.find (\<lambda>r. Relay.name r = h)
       (RelayCity.relays (RelayCountry.cities (RelayList.countries this ! i) ! j)))"
    by (rule Hostname_in_city)
  show "findItemForLocation this (Only (Hostname cc ci h)) = Some item \<longleftrightarrow>
          (\<exists>k. first_match (\<lambda>r. Relay.name r = h)
                 (RelayCity.relays (RelayCountry.cities (RelayList.countries this ! i) ! j)) k \<and>
               item = ItemRelay
                 (RelayCity.relays (RelayCountry.cities (RelayList.countries this ! i) ! j) ! k))"
    unfolding eq by (rule map_option_find_Some)
  show "findItemForLocation this (Only (Hostname cc ci h)) = None \<longleftrightarrow>
          list_all (\<lambda>r. Relay.name r \<noteq> h)
            (RelayCity.relays (RelayCountry.cities (RelayList.countries this ! i) ! j))"
    unfolding eq by (rule map_option_find_None)
qed

text \<open>
  In the list built from \<open>example_model\<close>: the second relay of \<open>sto\<close> is found by its
  host name, and the lookup is absent for a missing host, for the host name in upper
  case, for a missing city and for a missing country.
\<close>

theorem findItemForLocation_Hostname_witness:
  "findItemForLocation (RelayList_constructor example_model)
     (Only (Hostname ''se'' ''sto'' ''se2-wg-001'')) =
     Some (ItemRelay \<lparr> Relay.countryCode = ''se'', Relay.cityCode = ''sto'',
                       Relay.name = ''se2-wg-001'' \<rparr>) \<and>
   findItemForLocation (RelayList_constructor example_model)
     (Only (Hostname ''se'' ''sto'' ''missing-host'')) = None \<and>
   findItemForLocation (RelayList_constructor example_model)
     (Only (Hostname ''se'' ''sto'' ''SE2-WG-001'')) = None \<and>
   findItemForLocation (RelayList_constructor example_model)
     (Only (Hostname ''se'' ''xx'' ''se2-wg-001'')) = None \<and>
   findItemForLocation (RelayList_constructor example_model)
     (Only (Hostname ''zz'' ''sto'' ''se2-wg-001'')) = None"
proof -
  let ?rl = "RelayList_constructor example_model"
  let ?cities = "RelayCountry.cities (RelayList.countries ?rl ! 0)"
  let ?relays = "RelayCity.relays (?cities ! 1)"
  have fm: "first_match (\<lambda>c. RelayCountry.code c = ''se'') (RelayList.countries ?rl) 0"
    by (simp add: example_defs)
  have fx: "first_match (\<lambda>x. RelayCity.code x = ''sto'') ?cities 1"
    by (simp add: example_defs)
  have fr: "first_match (\<lambda>r. Relay.name r = ''se2-wg-001'') ?relays 1"
    by (simp add: example_defs)
  have nr: "list_all (\<lambda>r. Relay.name r \<noteq> ''missing-host'') ?relays"
    by (simp add: example_defs)
  have nx: "list_all (\<lambda>x. RelayCity.code x \<noteq> ''xx'') ?cities"
    by (simp add: example_defs)
  have nc: "list_all (\<lambda>c. RelayCountry.code c \<noteq> ''zz'') (RelayList.countries ?rl)"
    by (simp add: example_defs)
  have r: "?relays ! 1 =
      \<lparr> Relay.countryCode = ''se'', Relay.cityCode = ''sto'', Relay.name = ''se2-wg-001'' \<rparr>"
    by (simp add: example_defs)
  from fm fx fr have "findItemForLocation ?rl (Only (Hostname ''se'' ''sto'' ''se2-wg-001'')) =
      Some (ItemRelay (?relays ! 1))"
    using findItemForLocation_Hostname [of "''se''" ?rl "''sto''" "''se2-wg-001''" 0 1 "ItemRelay (?relays ! 1)"] by blast
  moreover from fm fx nr
  have "findItemForLocation ?rl (Only (Hostname ''se'' ''sto'' ''missing-host'')) = None"
    using findItemForLocation_Hostname [of "''se''" ?rl "''sto''" "''missing-host''" 0 1] by blast
  moreover have "list_all (\<lambda>r. Relay.name r \<noteq> ''SE2-WG-001'') ?relays"
    by (simp add: example_defs)
  with fm fx have "findItemForLocation ?rl (Only (Hostname ''se'' ''sto'' ''SE2-WG-001'')) = None"
    using findItemForLocation_Hostname [of "''se''" ?rl "''sto''" "''SE2-WG-001''" 0 1] by blast
  moreover from fm nx
  have "findItemForLocation ?rl (Only (Hostname ''se'' ''xx'' ''se2-wg-001'')) = None"
    using findItemForLocation_Hostname [of "''se''" ?rl "''xx''" "''se2-wg-001''" 0] by blast
  moreover from nc
  have "findItemForLocation ?rl (Only (Hostname ''zz'' ''sto'' ''se2-wg-001'')) = None"
    using findItemForLocation_Hostname [of "''zz''" ?rl "''sto''" "''se2-wg-001''"] by blast
  ultimately show ?thesis unfolding r by blast
qed

text \<open>
  C9. Whenever a lookup returns an item, the item is of the kind asked for and its
  identifying field equals the one queried: a country with the queried code for \<open>Country\<close>,
  a city with the queried city code for \<open>City\<close>, a relay with the queried host name for
  \<open>Hostname\<close>.
\<close>

theorem findItemForLocation_matches_constraint:
  "(findItemForLocation this (Only (Country cc)) = Some item \<longrightarrow>
      (\<exists>c. item = ItemCountry c \<and> RelayCountry.code c = cc)) \<and>
   (findItemForLocation this (Only (City cc ci)) = Some item \<longrightarrow>
      (\<exists>x. item = ItemCity x \<and> RelayCity.code x = ci)) \<and>
   (findItemForLocation this (Only (Hostname cc ci h)) = Some item \<longrightarrow>
      (\<exists>r. item = ItemRelay r \<and> Relay.name r = h))"
proof (intro conjI impI)
  assume "findItemForLocation this (Only (Country cc)) = Some item"
  then obtain c where "List.find (\<lambda>c. RelayCountry.code c = cc) (RelayList.countries this) = Some c"
    and "item = ItemCountry c"
    by auto
  then show "\<exists>c. item = ItemCountry c \<and> RelayCountry.code c = cc"
    using find_Some_holds [of "\<lambda>c. RelayCountry.code c = cc" "RelayList.countries this" c] by simp
next
  assume some: "findItemForLocation this (Only (City cc ci)) = Some item"
  show "\<exists>x. item = ItemCity x \<and> RelayCity.code x = ci"
  proof (cases "List.find (\<lambda>c. RelayCountry.code c = cc) (RelayList.countries this)")
    case None
    then have "findItemForLocation this (Only (City cc ci)) = None" by (rule City_no_country)
    with some show ?thesis by simp
  next
    case (Some c)
    then have eq: "findItemForLocation this (Only (City cc ci)) =
        map_option ItemCity (List.find (\<lambda>x. RelayCity.code x = ci) (RelayCountry.cities c))"
      by (rule City_in_country)
    from some [unfolded eq] obtain x where "List.find (\<lambda>x. RelayCity.code x = ci) (RelayCountry.cities c) = Some x"
      and "item = ItemCity x"
      by auto
    then show ?thesis
      using find_Some_holds [of "\<lambda>x. RelayCity.code x = ci" "RelayCountry.cities c" x] by simp
  qed
next
  assume some: "findItemForLocation this (Only (Hostname cc ci h)) = Some item"
  show "\<exists>r. item = ItemRelay r \<and> Relay.name r = h"
  proof (cases "List.find (\<lambda>c. RelayCountry.code c = cc) (RelayList.countries this)")
    case None
    then have "findItemForLocation this (Only (Hostname cc ci h)) = None"
      by (rule Hostname_no_country)
    with some show ?thesis by simp
  next
    case country: (Some c)
    show ?thesis
    proof (cases "List.find (\<lambda>x. RelayCity.code x = ci) (RelayCountry.cities c)")
      case None
      with country have "findItemForLocation this (Only (Hostname cc ci h)) = None"
        by (rule Hostname_no_city)
      with some show ?thesis by simp
    next
      case (Some x)
      with country have eq: "findItemForLocation this (Only (Hostname cc ci h)) =
          map_option ItemRelay (List.find (\<lambda>r. Relay.name r = h) (RelayCity.relays x))"
        by (rule Hostname_in_city)
      from some [unfolded eq] obtain r where "List.find (\<lambda>r. Relay.name r = h) (RelayCity.relays x) = Some r"
        and "item = ItemRelay r"
        by auto
      then show ?thesis
        using find_Some_holds [of "\<lambda>r. Relay.name r = h" "RelayCity.relays x" r] by simp
    qed
  qed
qed

theorem findItemForLocation_matches_constraint_witness:
  "findItemForLocation (RelayList_constructor example_model) (Only (Country ''no'')) =
     Some (ItemCountry (RelayList.countries (RelayList_constructor example_model) ! 1)) \<and>
   RelayCountry.code (RelayList.countries (RelayList_constructor example_model) ! 1) = ''no'' \<and>
   findItemForLocation (RelayList_constructor example_model) (Only (City ''se'' ''got'')) =
     Some (ItemCity
       (RelayCountry.cities (RelayList.countries (RelayList_constructor example_model) ! 0) ! 0)) \<and>
   RelayCity.code
     (RelayCountry.cities (RelayList.countries (RelayList_constructor example_model) ! 0) ! 0) =
     ''got'' \<and>
   findItemForLocation (RelayList_constructor example_model)
     (Only (Hostname ''no'' ''osl'' ''no1-wg-001'')) =
     Some (ItemRelay (RelayCity.relays
       (RelayCountry.cities (RelayList.countries (RelayList_constructor example_model) ! 1) ! 0) ! 0)) \<and>
   Relay.name (RelayCity.relays
       (RelayCountry.cities (RelayList.countries (RelayList_constructor example_model) ! 1) ! 0) ! 0) =
     ''no1-wg-001''"
proof -
  let ?rl = "RelayList_constructor example_model"
  let ?no = "RelayList.countries ?rl ! 1"
  let ?got = "RelayCountry.cities (RelayList.countries ?rl ! 0) ! 0"
  let ?relay = "RelayCity.relays (RelayCountry.cities ?no ! 0) ! 0"
  have a: "findItemForLocation ?rl (Only (Country ''no'')) = Some (ItemCountry ?no)"
    by (simp add: example_defs)
  have b: "findItemForLocation ?rl (Only (City ''se'' ''got'')) = Some (ItemCity ?got)"
    by (simp add: example_defs)
  have c: "findItemForLocation ?rl (Only (Hostname ''no'' ''osl'' ''no1-wg-001'')) =
      Some (ItemRelay ?relay)"
    by (simp add: example_defs)
  from a have "RelayCountry.code ?no = ''no''"
    using findItemForLocation_matches_constraint [of ?rl "''no''" "ItemCountry ?no"] by blast
  moreover from b have "RelayCity.code ?got = ''got''"
    using findItemForLocation_matches_constraint [of ?rl "''se''" "ItemCity ?got" "''got''"]
    by blast
  moreover from c have "Relay.name ?relay = ''no1-wg-001''"
    using findItemForLocation_matches_constraint
      [of ?rl "''no''" "ItemRelay ?relay" "''osl''" "''no1-wg-001''"]
    by blast
  ultimately show ?thesis using a b c by blast
qed

text \<open>
  C10. Success at a deeper level implies success at every shallower level with the same
  prefix: if the \<open>Hostname\<close> lookup returns an item then so does the \<open>City\<close> lookup with
  the same country and city codes, and if the \<open>City\<close> lookup returns an item then so does
  the \<open>Country\<close> lookup with the same country code.
\<close>

theorem findItemForLocation_prefix_success:
  "(findItemForLocation this (Only (Hostname cc ci h)) \<noteq> None \<longrightarrow>
      findItemForLocation this (Only (City cc ci)) \<noteq> None) \<and>
   (findItemForLocation this (Only (City cc ci)) \<noteq> None \<longrightarrow>
      findItemForLocation this (Only (Country cc)) \<noteq> None)"
proof (cases "List.find (\<lambda>c. RelayCountry.code c = cc) (RelayList.countries this)")
  case None
  then have "findItemForLocation this (Only (Hostname cc ci h)) = None"
    and "findItemForLocation this (Only (City cc ci)) = None"
    by (rule Hostname_no_country, rule City_no_country)
  then show ?thesis by simp
next
  case country: (Some c)
  then have top: "findItemForLocation this (Only (Country cc)) \<noteq> None" by simp
  show ?thesis
  proof (cases "List.find (\<lambda>x. RelayCity.code x = ci) (RelayCountry.cities c)")
    case None
    with country have "findItemForLocation this (Only (Hostname cc ci h)) = None"
      by (rule Hostname_no_city)
    with top show ?thesis by simp
  next
    case (Some x)
    with City_in_country [OF country, of ci]
    have "findItemForLocation this (Only (City cc ci)) \<noteq> None" by simp
    with top show ?thesis by simp
  qed
qed

theorem findItemForLocation_prefix_success_witness:
  "findItemForLocation (RelayList_constructor example_model)
     (Only (Hostname ''se'' ''sto'' ''se1-wg-001'')) \<noteq> None \<and>
   findItemForLocation (RelayList_constructor example_model) (Only (City ''se'' ''sto'')) \<noteq> None \<and>
   findItemForLocation (RelayList_constructor example_model) (Only (Country ''se'')) \<noteq> None"
proof -
  let ?rl = "RelayList_constructor example_model"
  have h: "findItemForLocation ?rl (Only (Hostname ''se'' ''sto'' ''se1-wg-001'')) \<noteq> None"
    by (simp add: example_defs)
  note up = findItemForLocation_prefix_success [of ?rl "''se''" "''sto''" "''se1-wg-001''"]
  from h up have c: "findItemForLocation ?rl (Only (City ''se'' ''sto'')) \<noteq> None"
    by blast
  from c up have "findItemForLocation ?rl (Only (Country ''se'')) \<noteq> None"
    by blast
  with h c show ?thesis by blast
qed

section \<open>Properties of the construction\<close>

text \<open>
  C6. Construction keeps the number and the order of the input entries at every level,
  with nothing sorted and nothing removed: the countries of the list carry, position by
  position, the codes and names of the input countries; the cities of the country at any
  position \<open>i\<close> carry the codes and names of the cities of input country \<open>i\<close>; and the
  relays of its city at any position \<open>j\<close> carry the host names of the relays of that input
  city.
\<close>

theorem constructor_preserves_order:
  "length (RelayList.countries (RelayList_constructor m)) = length (ModelRelayList.countries m) \<and>
   map RelayCountry.code (RelayList.countries (RelayList_constructor m)) =
     map ModelCountry.code (ModelRelayList.countries m) \<and>
   map RelayCountry.name (RelayList.countries (RelayList_constructor m)) =
     map ModelCountry.name (ModelRelayList.countries m) \<and>
   (i < length (ModelRelayList.countries m) \<longrightarrow>
      length (RelayCountry.cities (RelayList.countries (RelayList_constructor m) ! i)) =
        length (ModelCountry.cities (ModelRelayList.countries m ! i)) \<and>
      map RelayCity.code (RelayCountry.cities (RelayList.countries (RelayList_constructor m) ! i)) =
        map ModelCity.code (ModelCountry.cities (ModelRelayList.countries m ! i)) \<and>
      map RelayCity.name (RelayCountry.cities (RelayList.countries (RelayList_constructor m) ! i)) =
        map ModelCity.name (ModelCountry.cities (ModelRelayList.countries m ! i)) \<and>
      (j < length (ModelCountry.cities (ModelRelayList.countries m ! i)) \<longrightarrow>
         length (RelayCity.relays
             (RelayCountry.cities (RelayList.countries (RelayList_constructor m) ! i) ! j)) =
           length (ModelCity.relays (ModelCountry.cities (ModelRelayList.countries m ! i) ! j)) \<and>
         map Relay.name (RelayCity.relays
             (RelayCountry.cities (RelayList.countries (RelayList_constructor m) ! i) ! j)) =
           map ModelRelay.hostname
             (ModelCity.relays (ModelCountry.cities (ModelRelayList.countries m ! i) ! j))))"
proof (intro conjI impI)
  show "length (RelayList.countries (RelayList_constructor m)) = length (ModelRelayList.countries m)"
    by (rule constructor_countries_length)
  show "map RelayCountry.code (RelayList.countries (RelayList_constructor m)) =
     map ModelCountry.code (ModelRelayList.countries m)"
    by (simp add: RelayList_constructor_def Let_def comp_def)
  show "map RelayCountry.name (RelayList.countries (RelayList_constructor m)) =
     map ModelCountry.name (ModelRelayList.countries m)"
    by (simp add: RelayList_constructor_def Let_def comp_def)
next
  assume i: "i < length (ModelRelayList.countries m)"
  note c = constructor_country_nth [OF i]
  show "length (RelayCountry.cities (RelayList.countries (RelayList_constructor m) ! i)) =
        length (ModelCountry.cities (ModelRelayList.countries m ! i))"
    by (simp add: c)
  show "map RelayCity.code (RelayCountry.cities (RelayList.countries (RelayList_constructor m) ! i)) =
        map ModelCity.code (ModelCountry.cities (ModelRelayList.countries m ! i))"
    by (simp add: c comp_def)
  show "map RelayCity.name (RelayCountry.cities (RelayList.countries (RelayList_constructor m) ! i)) =
        map ModelCity.name (ModelCountry.cities (ModelRelayList.countries m ! i))"
    by (simp add: c comp_def)
  assume j: "j < length (ModelCountry.cities (ModelRelayList.countries m ! i))"
  show "length (RelayCity.relays
             (RelayCountry.cities (RelayList.countries (RelayList_constructor m) ! i) ! j)) =
           length (ModelCity.relays (ModelCountry.cities (ModelRelayList.countries m ! i) ! j))"
    using j by (simp add: c)
  show "map Relay.name (RelayCity.relays
             (RelayCountry.cities (RelayList.countries (RelayList_constructor m) ! i) ! j)) =
           map ModelRelay.hostname
             (ModelCity.relays (ModelCountry.cities (ModelRelayList.countries m ! i) ! j))"
    using j by (simp add: c comp_def)
qed

text \<open>
  On \<open>duplicate_model\<close> both countries with code \<open>se\<close> are kept, in their order; on
  \<open>example_model\<close> the cities of the first country and the relays of its second city
  keep their order.
\<close>

theorem constructor_preserves_order_witness:
  "map RelayCountry.code (RelayList.countries (RelayList_constructor duplicate_model)) =
     [''se'', ''se''] \<and>
   map RelayCountry.name (RelayList.countries (RelayList_constructor duplicate_model)) =
     [''Sweden'', ''Sverige''] \<and>
   map RelayCity.code
     (RelayCountry.cities (RelayList.countries (RelayList_constructor example_model) ! 0)) =
     [''got'', ''sto''] \<and>
   map Relay.name (RelayCity.relays
     (RelayCountry.cities (RelayList.countries (RelayList_constructor example_model) ! 0) ! 1)) =
     [''se1-wg-001'', ''se2-wg-001'']"
proof -
  have i: "0 < length (ModelRelayList.countries example_model)"
    by (simp add: example_model_def)
  have j: "1 < length (ModelCountry.cities (ModelRelayList.countries example_model ! 0))"
    by (simp add: example_model_def)
  have "map RelayCountry.code (RelayList.countries (RelayList_constructor duplicate_model)) =
      map ModelCountry.code (ModelRelayList.countries duplicate_model)"
    and "map RelayCountry.name (RelayList.countries (RelayList_constructor duplicate_model)) =
      map ModelCountry.name (ModelRelayList.countries duplicate_model)"
    using constructor_preserves_order [of duplicate_model] by blast+
  moreover have "map RelayCity.code
       (RelayCountry.cities (RelayList.countries (RelayList_constructor example_model) ! 0)) =
      map ModelCity.code (ModelCountry.cities (ModelRelayList.countries example_model ! 0))"
    and "map Relay.name (RelayCity.relays
       (RelayCountry.cities (RelayList.countries (RelayList_constructor example_model) ! 0) ! 1)) =
      map ModelRelay.hostname
        (ModelCity.relays (ModelCountry.cities (ModelRelayList.countries example_model ! 0) ! 1))"
    using constructor_preserves_order [of example_model 0 1] i j by blast+
  ultimately show ?thesis
    by (simp add: example_model_def duplicate_model_def)
qed

text \<open>
  C7. In every constructed list, each city stores the code of the country that owns it,
  and each relay stores the code of the country and the code of the city that own it.
\<close>

theorem constructor_propagates_codes:
  assumes "country \<in> set (RelayList.countries (RelayList_constructor m))"
    and "city \<in> set (RelayCountry.cities country)"
  shows "RelayCity.countryCode city = RelayCountry.code country \<and>
         (\<forall>relay \<in> set (RelayCity.relays city).
            Relay.countryCode relay = RelayCountry.code country \<and>
            Relay.cityCode relay = RelayCity.code city)"
  using constructor_codes [OF assms] by blast

theorem constructor_propagates_codes_witness:
  "RelayList.countries (RelayList_constructor example_model) ! 0
     \<in> set (RelayList.countries (RelayList_constructor example_model)) \<and>
   RelayCountry.cities (RelayList.countries (RelayList_constructor example_model) ! 0) ! 1
     \<in> set (RelayCountry.cities (RelayList.countries (RelayList_constructor example_model) ! 0)) \<and>
   RelayCity.relays
       (RelayCountry.cities (RelayList.countries (RelayList_constructor example_model) ! 0) ! 1) ! 0
     \<in> set (RelayCity.relays
         (RelayCountry.cities (RelayList.countries (RelayList_constructor example_model) ! 0) ! 1)) \<and>
   RelayCity.countryCode
       (RelayCountry.cities (RelayList.countries (RelayList_constructor example_model) ! 0) ! 1) =
     RelayCountry.code (RelayList.countries (RelayList_constructor example_model) ! 0) \<and>
   Relay.countryCode (RelayCity.relays
       (RelayCountry.cities (RelayList.countries (RelayList_constructor example_model) ! 0) ! 1) ! 0) =
     RelayCountry.code (RelayList.countries (RelayList_constructor example_model) ! 0) \<and>
   Relay.cityCode (RelayCity.relays
       (RelayCountry.cities (RelayList.countries (RelayList_constructor example_model) ! 0) ! 1) ! 0) =
     RelayCity.code
       (RelayCountry.cities (RelayList.countries (RelayList_constructor example_model) ! 0) ! 1)"
proof -
  let ?country = "RelayList.countries (RelayList_constructor example_model) ! 0"
  let ?city = "RelayCountry.cities ?country ! 1"
  let ?relay = "RelayCity.relays ?city ! 0"
  have c: "?country \<in> set (RelayList.countries (RelayList_constructor example_model))"
    by (simp add: example_defs)
  have x: "?city \<in> set (RelayCountry.cities ?country)"
    by (simp add: example_defs)
  have r: "?relay \<in> set (RelayCity.relays ?city)"
    by (simp add: example_defs)
  from constructor_propagates_codes [OF c x] r c x show ?thesis
    by blast
qed

text \<open>
  C8. In every constructed list the expansion flag of every country and of every city is
  false; the constructor passes the literal \<open>false\<close> and reads no flag of the input.
\<close>

theorem constructor_expanded_false:
  assumes "country \<in> set (RelayList.countries (RelayList_constructor m))"
  shows "\<not> RelayCountry.expanded country \<and>
         (\<forall>city \<in> set (RelayCountry.cities country). \<not> RelayCity.expanded city)"
  using constructor_expanded [OF assms] by blast

theorem constructor_expanded_false_witness:
  "RelayList.countries (RelayList_constructor example_model) ! 0
     \<in> set (RelayList.countries (RelayList_constructor example_model)) \<and>
   RelayCountry.cities (RelayList.countries (RelayList_constructor example_model) ! 0) ! 1
     \<in> set (RelayCountry.cities (RelayList.countries (RelayList_constructor example_model) ! 0)) \<and>
   RelayCountry.expanded (RelayList.countries (RelayList_constructor example_model) ! 0) = False \<and>
   RelayCity.expanded
     (RelayCountry.cities (RelayList.countries (RelayList_constructor example_model) ! 0) ! 1) = False"
proof -
  let ?country = "RelayList.countries (RelayList_constructor example_model) ! 0"
  let ?city = "RelayCountry.cities ?country ! 1"
  have c: "?country \<in> set (RelayList.countries (RelayList_constructor example_model))"
    by (simp add: example_defs)
  have x: "?city \<in> set (RelayCountry.cities ?country)"
    by (simp add: example_defs)
  from constructor_expanded_false [OF c] x c show ?thesis
    by blast
qed

section \<open>Round trip\<close>

text \<open>
  C1, as stated, fails where a code occurs twice among siblings: in the list built from
  \<open>duplicate_model\<close> the relay \<open>se1-wg-001\<close> sits in city \<open>sto\<close> of the second country
  with code \<open>se\<close>, and the lookup of its own country code, city code and host name stops
  at the first country \<open>se\<close>, which has no city, and returns nothing.
\<close>

theorem hostname_roundtrip_duplicate_counterexample:
  "duplicate_relay \<in> set (RelayCity.relays
       (RelayCountry.cities (RelayList.countries (RelayList_constructor duplicate_model) ! 1) ! 0)) \<and>
   findItemForLocation (RelayList_constructor duplicate_model)
     (Only (Hostname (Relay.countryCode duplicate_relay) (Relay.cityCode duplicate_relay)
        (Relay.name duplicate_relay))) = None \<and>
   findItemForLocation (RelayList_constructor duplicate_model)
     (Only (Hostname (Relay.countryCode duplicate_relay) (Relay.cityCode duplicate_relay)
        (Relay.name duplicate_relay))) \<noteq> Some (ItemRelay duplicate_relay)"
  by (simp add: RelayList_constructor_def duplicate_model_def duplicate_relay_def)

text \<open>
  C1, amended. Take a relay of a constructed list, in the city at position \<open>j\<close> of the
  country at position \<open>i\<close>, where no country before position \<open>i\<close> has the code of country
  \<open>i\<close> and no city of country \<open>i\<close> before position \<open>j\<close> has the code of city \<open>j\<close> (as is the
  case everywhere when sibling codes are unique). Then the \<open>Hostname\<close> lookup of the relay's
  own country code, city code and name returns a relay equal to it.
\<close>

theorem hostname_roundtrip_first_match:
  assumes country: "first_match
        (\<lambda>c. RelayCountry.code c = RelayCountry.code (RelayList.countries (RelayList_constructor m) ! i))
        (RelayList.countries (RelayList_constructor m)) i"
    and city: "first_match
        (\<lambda>x. RelayCity.code x =
           RelayCity.code (RelayCountry.cities (RelayList.countries (RelayList_constructor m) ! i) ! j))
        (RelayCountry.cities (RelayList.countries (RelayList_constructor m) ! i)) j"
    and relay: "relay \<in> set (RelayCity.relays
        (RelayCountry.cities (RelayList.countries (RelayList_constructor m) ! i) ! j))"
  shows "findItemForLocation (RelayList_constructor m)
           (Only (Hostname (Relay.countryCode relay) (Relay.cityCode relay) (Relay.name relay))) =
         Some (ItemRelay relay)"
proof -
  let ?rl = "RelayList_constructor m"
  let ?c = "RelayList.countries ?rl ! i"
  let ?x = "RelayCountry.cities ?c ! j"
  from country have c_in: "?c \<in> set (RelayList.countries ?rl)" by (rule first_match_in_set)
  from city have x_in: "?x \<in> set (RelayCountry.cities ?c)" by (rule first_match_in_set)
  have codes: "Relay.countryCode r = RelayCountry.code ?c \<and> Relay.cityCode r = RelayCity.code ?x"
    if "r \<in> set (RelayCity.relays ?x)" for r
    using c_in x_in that by (rule constructor_codes(2))
  from first_match_find [OF country]
  have fc: "List.find (\<lambda>c. RelayCountry.code c = Relay.countryCode relay) (RelayList.countries ?rl) =
            Some ?c"
    using codes [OF relay] by simp
  from first_match_find [OF city]
  have fx: "List.find (\<lambda>x. RelayCity.code x = Relay.cityCode relay) (RelayCountry.cities ?c) = Some ?x"
    using codes [OF relay] by simp
  have "List.find (\<lambda>r. Relay.name r = Relay.name relay) (RelayCity.relays ?x) = Some relay"
  proof (rule find_same_key [OF relay])
    fix r
    assume "r \<in> set (RelayCity.relays ?x)" and "Relay.name r = Relay.name relay"
    with codes [of r] codes [OF relay] show "r = relay" by simp
  qed
  with Hostname_in_city [OF fc fx, of "Relay.name relay"] show ?thesis by simp
qed

theorem hostname_roundtrip_first_match_witness:
  "findItemForLocation (RelayList_constructor example_model)
     (Only (Hostname ''se'' ''sto'' ''se2-wg-001'')) =
   Some (ItemRelay \<lparr> Relay.countryCode = ''se'', Relay.cityCode = ''sto'',
                     Relay.name = ''se2-wg-001'' \<rparr>)"
proof -
  let ?rl = "RelayList_constructor example_model"
  let ?country = "RelayList.countries ?rl ! 0"
  let ?city = "RelayCountry.cities ?country ! 1"
  let ?relay = "\<lparr> Relay.countryCode = ''se'', Relay.cityCode = ''sto'',
                  Relay.name = ''se2-wg-001'' \<rparr>"
  have c: "first_match (\<lambda>c. RelayCountry.code c = RelayCountry.code ?country)
             (RelayList.countries ?rl) 0"
    by (simp add: example_defs)
  have x: "first_match (\<lambda>x. RelayCity.code x = RelayCity.code ?city)
             (RelayCountry.cities ?country) 1"
    by (simp add: example_defs)
  have r: "?relay \<in> set (RelayCity.relays ?city)"
    by (simp add: example_defs)
  from hostname_roundtrip_first_match [OF c x r] show ?thesis
    by simp
qed

end
